theory Spec2Isabelle
  imports Main
begin

section \<open>Calls to the cluster\<close>

text \<open>
  The notebooks of the repository are thin callers of platform SDKs. Every component
  builds a descriptor (a nest of SDK objects) and hands it to a client. The objects are
  modelled as records with the fields the source sets; the cluster is modelled by the
  list of the calls made on the clients so far, oldest first, each with its arguments.
  A component takes that list and returns it extended.
\<close>

subsection \<open>Kubernetes and training-operator objects (as \<open>launch_training\<close> fills them)\<close>

record V1ObjectMeta =
  meta_name :: "string option"
  meta_annotations :: "(string \<times> string) list option"

record V1PersistentVolumeClaimVolumeSource =
  claim_name :: string

record V1EmptyDirVolumeSource =
  medium :: string
  size_limit :: string

record V1Volume =
  vol_name :: string
  persistent_volume_claim :: "V1PersistentVolumeClaimVolumeSource option"
  empty_dir :: "V1EmptyDirVolumeSource option"

record V1VolumeMount =
  vm_name :: string
  mount_path :: string

record V1ResourceRequirements =
  limits :: "(string \<times> string) list"

record V1Container =
  container_name :: string
  container_image :: string
  command :: "string list"
  args :: "string list"
  resources :: V1ResourceRequirements
  volume_mounts :: "V1VolumeMount list"

record V1PodSpec =
  volumes :: "V1Volume list"
  containers :: "V1Container list"

record V1PodTemplateSpec =
  template_metadata :: V1ObjectMeta
  template_spec :: V1PodSpec

record KubeflowOrgV1ReplicaSpec =
  replicas :: int
  restart_policy :: string
  template :: V1PodTemplateSpec

text \<open>\<open>KubeflowOrgV1RunPolicy()\<close> is built with no argument: every field keeps its default.\<close>

datatype KubeflowOrgV1RunPolicy = KubeflowOrgV1RunPolicy

text \<open>
  \<open>pytorch_replica_specs\<close> is a Python dict with string keys; it is kept as the list
  of its items in insertion order.
\<close>

record KubeflowOrgV1PyTorchJobSpec =
  pytorch_replica_specs :: "(string \<times> KubeflowOrgV1ReplicaSpec) list"
  run_policy :: KubeflowOrgV1RunPolicy

record KubeflowOrgV1PyTorchJob =
  job_api_version :: string
  job_kind :: string
  job_metadata :: V1ObjectMeta
  job_spec :: KubeflowOrgV1PyTorchJobSpec

subsection \<open>KServe objects (as \<open>deploy_model\<close> fills them)\<close>

record V1beta1ModelFormat =
  format_name :: string

record V1beta1ModelSpec =
  model_name :: string
  model_format :: V1beta1ModelFormat
  protocol_version :: string
  runtime_version :: string
  storage_uri :: string

record V1beta1PredictorSpec =
  model :: V1beta1ModelSpec

record V1beta1InferenceServiceSpec =
  predictor :: V1beta1PredictorSpec

record V1beta1InferenceService =
  isvc_api_version :: string
  isvc_kind :: string
  isvc_metadata :: V1ObjectMeta
  isvc_spec :: V1beta1InferenceServiceSpec

subsection \<open>The secret of notebook 01\<close>

text \<open>
  \<open>string_data\<close> is the dict that \<open>json.load\<close> read from \<open>kaggle.json\<close>, kept as
  the list of its items.
\<close>

record V1Secret =
  secret_api_version :: string
  secret_kind :: string
  secret_metadata :: V1ObjectMeta
  string_data :: "(string \<times> string) list"

subsection \<open>Requests\<close>

text \<open>
  One constructor for each client call of the repository, with the arguments of the call
  as the source passes them:
  \<open>v1.create_namespaced_secret(namespace=ns, body=kaggle_secret)\<close>,
  \<open>training_client.create_job(pytorch_job, namespace=namespace)\<close>,
  \<open>training_client.get_job_logs(name=run_name, follow=True)\<close> and
  \<open>kserve_client.create(isvc, namespace)\<close>.
  What a client makes of an argument (the training client puts its own namespace in the
  place of an empty one) is not modelled.
\<close>

datatype api_call =
    CreateNamespacedSecret string V1Secret
  | CreateJob KubeflowOrgV1PyTorchJob string
  | GetJobLogs string bool
  | KServeCreate V1beta1InferenceService string

type_synonym cluster = "api_call list"


definition create_job :: "KubeflowOrgV1PyTorchJob \<Rightarrow> string \<Rightarrow> cluster \<Rightarrow> cluster" where
  "create_job job namespace cl = cl @ [CreateJob job namespace]"

definition get_job_logs :: "string \<Rightarrow> bool \<Rightarrow> cluster \<Rightarrow> cluster" where
  "get_job_logs name follow cl = cl @ [GetJobLogs name follow]"

definition kserve_create :: "V1beta1InferenceService \<Rightarrow> string \<Rightarrow> cluster \<Rightarrow> cluster" where
  "kserve_create isvc namespace cl = cl @ [KServeCreate isvc namespace]"

section \<open>The component \<open>launch_training\<close>\<close>

text \<open>The three local helpers of the component.\<close>

definition get_metadata :: "string option \<Rightarrow> (string \<times> string) list option \<Rightarrow> V1ObjectMeta" where
  "get_metadata name annotations = \<lparr>meta_name = name, meta_annotations = annotations\<rparr>"

definition get_volume ::
  "string \<Rightarrow> V1PersistentVolumeClaimVolumeSource option \<Rightarrow> V1EmptyDirVolumeSource option \<Rightarrow> V1Volume"
where
  "get_volume name pvc ed = \<lparr>vol_name = name, persistent_volume_claim = pvc, empty_dir = ed\<rparr>"

definition get_volume_mount :: "string \<Rightarrow> string \<Rightarrow> V1VolumeMount" where
  "get_volume_mount name path = \<lparr>vm_name = name, mount_path = path\<rparr>"

text \<open>
  The component, statement by statement. Its nine parameters are the strings and string
  lists the pipeline passes; the last argument is the cluster before the call. The body
  has no branch and no \<open>raise\<close>: it builds the job and ends in \<open>create_job\<close>.
  (The parameter \<open>image\<close> is written \<open>image'\<close>, since \<open>image\<close> is a constant of HOL.)
\<close>

definition launch_training ::
  "string \<Rightarrow> string \<Rightarrow> string \<Rightarrow> string \<Rightarrow> string \<Rightarrow> string list \<Rightarrow> string list \<Rightarrow>
   string \<Rightarrow> string \<Rightarrow> cluster \<Rightarrow> cluster"
where
  "launch_training run_name namespace data_vol logs_vol image' image_cmd image_args
     data_mount_path logs_mount_path cl =
    (let pytorch_job_metadata = get_metadata (Some run_name) None;
         pytorch_replica_metadata =
           get_metadata None (Some [(''sidecar.istio.io/inject'', ''false'')]);
         data_volume = get_volume data_vol (Some \<lparr>claim_name = data_vol\<rparr>) None;
         logs_volume = get_volume logs_vol (Some \<lparr>claim_name = logs_vol\<rparr>) None;
         shm_volume =
           get_volume ''dshm'' None (Some \<lparr>medium = ''Memory'', size_limit = ''2Gi''\<rparr>);
         data_volume_mount = get_volume_mount data_vol data_mount_path;
         logs_volume_mount = get_volume_mount logs_vol logs_mount_path;
         dshm_volume_mount = get_volume_mount ''dshm'' ''/dev/shm'';
         pytorch_replica_container =
           \<lparr>container_name = ''pytorch'',
            container_image = image',
            command = image_cmd,
            args = image_args,
            resources = \<lparr>limits = [(''nvidia.com/gpu'', ''1'')]\<rparr>,
            volume_mounts = [data_volume_mount, logs_volume_mount, dshm_volume_mount]\<rparr>;
         pytorch_replica_template_spec =
           \<lparr>volumes = [data_volume, logs_volume, shm_volume],
            containers = [pytorch_replica_container]\<rparr>;
         pytorch_replica_template =
           \<lparr>template_metadata = pytorch_replica_metadata,
            template_spec = pytorch_replica_template_spec\<rparr>;
         pytorch_replica_spec =
           \<lparr>replicas = 1, restart_policy = ''OnFailure'', template = pytorch_replica_template\<rparr>;
         pytorch_replica_specs =
           [(''Master'', pytorch_replica_spec), (''Worker'', pytorch_replica_spec)];
         pytorch_job_spec =
           \<lparr>pytorch_replica_specs = pytorch_replica_specs,
            run_policy = KubeflowOrgV1RunPolicy\<rparr>;
         pytorch_job =
           \<lparr>job_api_version = ''kubeflow.org/v1'',
            job_kind = ''PyTorchJob'',
            job_metadata = pytorch_job_metadata,
            job_spec = pytorch_job_spec\<rparr>
     in create_job pytorch_job namespace cl)"

section \<open>The components \<open>monitor_training\<close> and \<open>deploy_model\<close>\<close>

definition monitor_training :: "string \<Rightarrow> cluster \<Rightarrow> cluster" where
  "monitor_training run_name cl = get_job_logs run_name True cl"

definition deploy_model :: "string \<Rightarrow> string \<Rightarrow> cluster \<Rightarrow> cluster" where
  "deploy_model isvc_name namespace cl =
    (let metadata = \<lparr>meta_name = Some isvc_name, meta_annotations = None\<rparr>;
         model_format = \<lparr>format_name = ''triton''\<rparr>;
         model_spec =
           \<lparr>model_name = '''',
            model_format = model_format,
            protocol_version = ''v2'',
            runtime_version = ''24.06-py3'',
            storage_uri = ''pvc://model-repo/model-repository''\<rparr>;
         predictor_spec = \<lparr>model = model_spec\<rparr>;
         isvc_spec = \<lparr>predictor = predictor_spec\<rparr>;
         isvc =
           \<lparr>isvc_api_version = ''serving.kserve.io/v1beta1'',
            isvc_kind = ''InferenceService'',
            isvc_metadata = metadata,
            isvc_spec = isvc_spec\<rparr>
     in kserve_create isvc namespace cl)"

section \<open>The pipeline \<open>isic_pipeline\<close>\<close>

text \<open>
  The body of \<open>isic_pipeline\<close> creates eight tasks and then decorates them: \<open>.after\<close>,
  \<open>set_caching_options\<close>, \<open>kubernetes.mount_pvc\<close> and
  \<open>kubernetes.use_secret_as_env\<close>. A task is named by the Python variable that holds
  it. The pipeline under construction is the list of its tasks in creation order.
\<close>

datatype task_id =
    isic_data_pvc | isic_logs_pvc | model_repo_pvc
  | download_data_step | launch_training_step | monitor_training_step
  | build_model_repo_step | deploy_model_step

text \<open>What a task runs: the component and the arguments the pipeline gives it.\<close>

datatype component_call =
    CreatePVC string "string list" string string
  | Download_data string string
  | Launch_training string string string string string "string list" "string list" string string
  | Monitor_training string
  | Build_model_repo
  | Deploy_model string string

text \<open>\<open>Task_output t key\<close> is the channel \<open>t.outputs[key]\<close>.\<close>

datatype channel = Task_output task_id string

record pipeline_task =
  task_call :: component_call
  dependent_tasks :: "task_id list"
  enable_caching :: "bool option"
  pvc_mounts :: "(channel \<times> string) list"
  secret_as_env :: "(string \<times> (string \<times> string) list) list"

type_synonym pipeline = "(task_id \<times> pipeline_task) list"

definition add_task :: "task_id \<Rightarrow> component_call \<Rightarrow> pipeline \<Rightarrow> pipeline" where
  "add_task t c p =
     p @ [(t, \<lparr>task_call = c, dependent_tasks = [], enable_caching = None,
               pvc_mounts = [], secret_as_env = []\<rparr>)]"

definition update_task :: "task_id \<Rightarrow> (pipeline_task \<Rightarrow> pipeline_task) \<Rightarrow> pipeline \<Rightarrow> pipeline" where
  "update_task t f p = map (\<lambda>(i, x). if i = t then (i, f x) else (i, x)) p"

definition after :: "task_id \<Rightarrow> task_id \<Rightarrow> pipeline \<Rightarrow> pipeline" where
  "after t d p = update_task t (\<lambda>x. x\<lparr>dependent_tasks := dependent_tasks x @ [d]\<rparr>) p"

definition set_caching_options :: "task_id \<Rightarrow> bool \<Rightarrow> pipeline \<Rightarrow> pipeline" where
  "set_caching_options t b p = update_task t (\<lambda>x. x\<lparr>enable_caching := Some b\<rparr>) p"

definition mount_pvc :: "task_id \<Rightarrow> channel \<Rightarrow> string \<Rightarrow> pipeline \<Rightarrow> pipeline" where
  "mount_pvc t pvc_name path p =
     update_task t (\<lambda>x. x\<lparr>pvc_mounts := pvc_mounts x @ [(pvc_name, path)]\<rparr>) p"

definition use_secret_as_env ::
  "task_id \<Rightarrow> string \<Rightarrow> (string \<times> string) list \<Rightarrow> pipeline \<Rightarrow> pipeline"
where
  "use_secret_as_env t secret_name secret_key_to_env p =
     update_task t
       (\<lambda>x. x\<lparr>secret_as_env := secret_as_env x @ [(secret_name, secret_key_to_env)]\<rparr>) p"

text \<open>The module-level constant of the pipeline notebook.\<close>

definition kaggle_secret :: string where
  "kaggle_secret = ''kaggle-secret''"

text \<open>
  The pipeline function, statement by statement; \<open>p\<close> is rebound after each statement.
  A call \<open>f(...).after(t)\<close> is the creation of the task followed by \<open>after\<close>.
\<close>

definition isic_pipeline ::
  "string \<Rightarrow> string \<Rightarrow> string \<Rightarrow> string \<Rightarrow> string \<Rightarrow> string \<Rightarrow> string \<Rightarrow> string \<Rightarrow>
   string list \<Rightarrow> string list \<Rightarrow> string \<Rightarrow> string \<Rightarrow> pipeline"
where
  "isic_pipeline namespace competition_name dist_run_name isvc_name data_vol logs_vol
     dist_run_image data_path dist_image_cmd dist_image_args data_mount_path logs_mount_path =
    (let p = add_task isic_data_pvc
               (CreatePVC ''isic-data'' [''ReadWriteMany''] ''8.0Gi'' ''longhorn'') [];
         p = add_task isic_logs_pvc
               (CreatePVC ''isic-logs'' [''ReadWriteMany''] ''2.0Gi'' ''longhorn'') p;
         p = add_task model_repo_pvc
               (CreatePVC ''model-repo'' [''ReadWriteMany''] ''4.0Gi'' ''longhorn'') p;
         p = add_task download_data_step (Download_data competition_name data_path) p;
         p = after download_data_step isic_data_pvc p;
         p = set_caching_options download_data_step True p;
         p = add_task launch_training_step
               (Launch_training dist_run_name namespace data_vol logs_vol dist_run_image
                  dist_image_cmd dist_image_args data_mount_path logs_mount_path) p;
         p = after launch_training_step download_data_step p;
         p = set_caching_options launch_training_step True p;
         p = add_task monitor_training_step (Monitor_training dist_run_name) p;
         p = after monitor_training_step launch_training_step p;
         p = set_caching_options monitor_training_step True p;
         p = add_task build_model_repo_step Build_model_repo p;
         p = after build_model_repo_step monitor_training_step p;
         p = set_caching_options build_model_repo_step True p;
         p = add_task deploy_model_step (Deploy_model isvc_name namespace) p;
         p = after deploy_model_step build_model_repo_step p;
         p = set_caching_options deploy_model_step False p;
         p = mount_pvc download_data_step (Task_output isic_data_pvc ''name'') ''/data'' p;
         p = mount_pvc build_model_repo_step (Task_output isic_logs_pvc ''name'') ''/logs'' p;
         p = mount_pvc build_model_repo_step (Task_output model_repo_pvc ''name'') ''/models'' p;
         p = use_secret_as_env download_data_step kaggle_secret
               [(''username'', ''KAGGLE_USERNAME'')] p;
         p = use_secret_as_env download_data_step kaggle_secret
               [(''key'', ''KAGGLE_KEY'')] p
     in p)"

subsection \<open>Steps, their dependencies and topological orders\<close>

text \<open>
  A step is a task that runs one of the five components; the three \<open>CreatePVC\<close> tasks
  provision volumes. A task depends on the tasks it was put \<open>after\<close> and on the tasks
  whose output it consumes. The step graph keeps the steps and the dependencies between
  steps.
\<close>

fun is_step_call :: "component_call \<Rightarrow> bool" where
  "is_step_call (CreatePVC n a s c) = False"
| "is_step_call c = True"

definition steps :: "pipeline \<Rightarrow> task_id list" where
  "steps p = map fst (filter (\<lambda>(i, x). is_step_call (task_call x)) p)"

definition task_dependencies :: "pipeline_task \<Rightarrow> task_id list" where
  "task_dependencies x =
     dependent_tasks x @ map (\<lambda>(ch, path). case ch of Task_output t k \<Rightarrow> t) (pvc_mounts x)"

type_synonym graph = "(task_id \<times> task_id list) list"

definition task_graph :: "pipeline \<Rightarrow> graph" where
  "task_graph p = map (\<lambda>(i, x). (i, task_dependencies x)) p"

definition step_graph :: "pipeline \<Rightarrow> graph" where
  "step_graph p =
     map (\<lambda>(i, ds). (i, filter (\<lambda>d. d \<in> set (steps p)) ds))
       (filter (\<lambda>(i, ds). i \<in> set (steps p)) (task_graph p))"

definition dependencies_of :: "graph \<Rightarrow> task_id \<Rightarrow> task_id list" where
  "dependencies_of g t = (case map_of g t of None \<Rightarrow> [] | Some ds \<Rightarrow> ds)"

text \<open>
  \<open>runnable g seen xs\<close>: running \<open>xs\<close> from left to right after \<open>seen\<close>, every task
  starts when all its dependencies have run.
\<close>

fun runnable :: "graph \<Rightarrow> task_id list \<Rightarrow> task_id list \<Rightarrow> bool" where
  "runnable g seen [] = True"
| "runnable g seen (x # xs) =
     (list_all (\<lambda>d. d \<in> set seen) (dependencies_of g x) \<and> runnable g (seen @ [x]) xs)"

definition is_topological_order :: "graph \<Rightarrow> task_id list \<Rightarrow> bool" where
  "is_topological_order g xs \<longleftrightarrow>
     distinct xs \<and> set xs = set (map fst g) \<and> runnable g [] xs"

section \<open>Python values, failures and the operating system\<close>

subsection \<open>Exceptions\<close>

text \<open>
  The exceptions the modelled statements can raise. \<open>ExternalError\<close> stands for a
  failure of something whose work is not modelled (the conversion of the checkpoint to
  ONNX, a program other than \<open>chmod\<close>).
\<close>

datatype py_error =
    KeyError | IndexError | TypeError | ValueError | JSONDecodeError | OverflowError
  | FileNotFoundError | CalledProcessError | ExternalError

definition and_then :: "py_error + 'a \<Rightarrow> ('a \<Rightarrow> py_error + 'b) \<Rightarrow> py_error + 'b" where
  "and_then r f = (case r of Inl e \<Rightarrow> Inl e | Inr x \<Rightarrow> f x)"

subsection \<open>Decoded JSON\<close>

text \<open>
  A Python \<open>float\<close>: \<open>Finite s m e\<close> is \<open>m * 2 ^ e\<close>, negative when \<open>s\<close> holds (every
  finite float has this form; \<open>Finite True 0 e\<close> is \<open>-0.0\<close>), \<open>Inf s\<close> is \<open>inf\<close> or
  \<open>-inf\<close>, and \<open>NaN\<close> is \<open>nan\<close>.
\<close>

datatype pyfloat = Finite bool nat int | Inf bool | NaN

text \<open>
  A value as \<open>json\<close> decodes it. \<open>JObject\<close> holds the items of the decoded dict, so its
  keys are distinct. An integer literal decodes to an \<open>int\<close> of any size, a literal with
  a fraction or an exponent to a \<open>float\<close> (to \<open>inf\<close> when it is beyond the range), and
  the literals \<open>NaN\<close>, \<open>Infinity\<close> and \<open>-Infinity\<close> to \<open>nan\<close> and \<open>inf\<close>.
\<close>

datatype json =
    JNull
  | JBool bool
  | JInt int
  | JFloat pyfloat
  | JString string
  | JArray "json list"
  | JObject "(string \<times> json) list"

text \<open>\<open>v[key]\<close> for a string key, and \<open>v[0]\<close>.\<close>

fun getitem_key :: "json \<Rightarrow> string \<Rightarrow> py_error + json" where
  "getitem_key (JObject items) key =
     (case map_of items key of None \<Rightarrow> Inl KeyError | Some v \<Rightarrow> Inr v)"
| "getitem_key v key = Inl TypeError"

fun getitem_0 :: "json \<Rightarrow> py_error + json" where
  "getitem_0 (JArray []) = Inl IndexError"
| "getitem_0 (JArray (v # vs)) = Inr v"
| "getitem_0 (JString []) = Inl IndexError"
| "getitem_0 (JString (c # cs)) = Inr (JString [c])"
| "getitem_0 (JObject items) = Inl KeyError"
| "getitem_0 v = Inl TypeError"

subsection \<open>Formatting numbers\<close>

definition digit :: "nat \<Rightarrow> char" where
  "digit d = ''0123456789'' ! d"

fun digits :: "nat \<Rightarrow> string" where
  "digits n = (if n < 10 then [digit n] else digits (n div 10) @ [digit (n mod 10)])"

declare digits.simps [simp del]

text \<open>\<open>str(i)\<close> for an \<open>int\<close>.\<close>

definition str_int :: "int \<Rightarrow> string" where
  "str_int i = (if i < 0 then ''-'' @ digits (nat (- i)) else digits (nat i))"

text \<open>
  \<open>float(n)\<close> for an \<open>int\<close>. The magnitude \<open>a\<close> is rounded to 53 significant bits:
  with \<open>k\<close> the number of bits beyond 53, to the nearest multiple of \<open>2 ^ k\<close>, and of
  two nearest ones to the even one. \<open>round_to_53_bits a\<close> is the pair of \<open>m\<close> and \<open>k\<close>
  with the rounded magnitude \<open>m * 2 ^ k\<close>. A rounded magnitude of \<open>2 ^ 1024\<close> or more is
  no float, and the conversion raises \<open>OverflowError\<close>.
\<close>

fun bit_length :: "nat \<Rightarrow> nat" where
  "bit_length n = (if n = 0 then 0 else Suc (bit_length (n div 2)))"

declare bit_length.simps [simp del]

definition round_to_53_bits :: "nat \<Rightarrow> nat \<times> nat" where
  "round_to_53_bits a =
     (let k = bit_length a - 53; q = a div 2 ^ k; r = a mod 2 ^ k
      in (if 2 * r < 2 ^ k then q
          else if 2 ^ k < 2 * r then q + 1
          else if even q then q else q + 1, k))"

definition float_of_int :: "int \<Rightarrow> py_error + pyfloat" where
  "float_of_int n =
     (case round_to_53_bits (nat \<bar>n\<bar>) of
        (m, k) \<Rightarrow>
          if 2 ^ 1024 \<le> m * 2 ^ k then Inl OverflowError
          else Inr (Finite (n < 0) m (int k)))"

text \<open>
  The format \<open>.3f\<close> writes, for a finite float, the decimal numeral with three
  fractional digits that is nearest to the exact value of the float; of two nearest ones
  it writes the one whose last digit is even. \<open>thousandths m e\<close> is that numeral without
  its point, for the value \<open>m * 2 ^ e\<close>. The other floats are written \<open>inf\<close>, \<open>-inf\<close>
  and \<open>nan\<close>.
\<close>

definition thousandths :: "nat \<Rightarrow> int \<Rightarrow> nat" where
  "thousandths m e =
     (if 0 \<le> e then m * 1000 * 2 ^ nat e
      else (let d = 2 ^ nat (- e); q = (m * 1000) div d; r = (m * 1000) mod d
            in if 2 * r < d then q
               else if d < 2 * r then q + 1
               else if even q then q else q + 1))"

definition fixed3 :: "bool \<Rightarrow> nat \<Rightarrow> string" where
  "fixed3 s n =
     (if s then ''-'' else '''') @ digits (n div 1000) @ ''.'' @
     [digit (n div 100 mod 10), digit (n div 10 mod 10), digit (n mod 10)]"

fun format_float_3f :: "pyfloat \<Rightarrow> string" where
  "format_float_3f (Finite s m e) = fixed3 s (thousandths m e)"
| "format_float_3f (Inf s) = (if s then ''-inf'' else ''inf'')"
| "format_float_3f NaN = ''nan''"

text \<open>
  \<open>format(v, '.3f')\<close>, the conversion in \<open>f"{prob:.3f}"\<close>. An \<open>int\<close> is converted
  with \<open>float\<close> first, which can raise; a \<open>bool\<close> is an \<open>int\<close>, 1 or 0; a \<open>str\<close>
  raises \<open>ValueError\<close>; \<open>None\<close>, a list and a dict raise \<open>TypeError\<close>.
\<close>

fun format_3f :: "json \<Rightarrow> py_error + string" where
  "format_3f (JFloat x) = Inr (format_float_3f x)"
| "format_3f (JInt n) = and_then (float_of_int n) (\<lambda>x. Inr (format_float_3f x))"
| "format_3f (JBool b) =
     and_then (float_of_int (if b then 1 else 0)) (\<lambda>x. Inr (format_float_3f x))"
| "format_3f (JString x) = Inl ValueError"
| "format_3f v = Inl TypeError"

subsection \<open>Paths, files and processes\<close>

text \<open>
  The state of the container a component runs in: the directories created so far, the
  files with their contents, and the argument vectors of the programs run through
  \<open>subprocess\<close>. A directory exists when it or a directory below it has been created;
  the root always exists. Writing a file needs its directory, reading needs the file;
  other failures of the operating system are outside the model.
\<close>

datatype file_content = Bytes string | Json_text json

record os_state =
  dirs :: "string list"
  files :: "(string \<times> file_content) list"
  subprocess_log :: "string list list"


definition rstrip_slash :: "string \<Rightarrow> string" where
  "rstrip_slash p = rev (dropWhile (\<lambda>c. c = CHR ''/'') (rev p))"

definition dirname :: "string \<Rightarrow> string" where
  "dirname p =
     (let head = rev (dropWhile (\<lambda>c. c \<noteq> CHR ''/'') (rev p))
      in if head \<noteq> [] \<and> \<not> list_all (\<lambda>c. c = CHR ''/'') head then rstrip_slash head else head)"

definition is_dir :: "os_state \<Rightarrow> string \<Rightarrow> bool" where
  "is_dir fs p \<longleftrightarrow>
     p = ''/'' \<or> list_ex (\<lambda>q. q = p \<or> take (length p + 1) q = p @ ''/'') (dirs fs)"

text \<open>\<open>os.makedirs(p, exist_ok=True)\<close>.\<close>

definition makedirs :: "string \<Rightarrow> os_state \<Rightarrow> os_state" where
  "makedirs p fs = fs\<lparr>dirs := dirs fs @ [p]\<rparr>"

text \<open>\<open>open(p, "w")\<close> followed by writing \<open>c\<close>; reading the file at \<open>p\<close>.\<close>

definition write_file :: "string \<Rightarrow> file_content \<Rightarrow> os_state \<Rightarrow> py_error + os_state" where
  "write_file p c fs =
     (if is_dir fs (dirname p) then Inr (fs\<lparr>files := (p, c) # files fs\<rparr>)
      else Inl FileNotFoundError)"

definition read_file :: "string \<Rightarrow> os_state \<Rightarrow> py_error + file_content" where
  "read_file p fs = (case map_of (files fs) p of None \<Rightarrow> Inl FileNotFoundError | Some c \<Rightarrow> Inr c)"




section \<open>Notebook 01: the Kaggle secret\<close>


section \<open>The component \<open>download_data\<close>: \<open>init_kaggle\<close>\<close>




subsection \<open>What the engine does with \<open>use_secret_as_env\<close>\<close>





section \<open>The component \<open>build_model_repo\<close>\<close>

text \<open>
  The text of the Triton configuration, the string literal \<open>content\<close> of the component.
  The literal opens with a line break, every line carries the four blanks of the
  function body, and the closing quotes stand after four blanks.
\<close>

definition content :: string where
  \<open>content =
     concat (map (\<lambda>l. l @ [CHR 0x0A])
       ['''',
        ''    name: "skin_cancer_detection"'',
        ''    backend: "onnxruntime"'',
        ''    max_batch_size : 0'',
        ''    input ['',
        ''      {'',
        ''        name: "input.1"'',
        ''        data_type: TYPE_FP32'',
        ''        dims: [ 1, 3, 224, 224 ]'',
        ''      }'',
        ''    ]'',
        ''    output ['',
        ''      {'',
        ''        name: "919"'',
        ''        data_type: TYPE_FP32'',
        ''        dims: [ 1, 1 ]'',
        ''      }'',
        ''    ]''])
     @ ''    ''\<close>

text \<open>
  The component. Its parameter \<open>to_onnx\<close> stands for the work of \<open>timm\<close> and
  \<open>torch\<close> between reading the checkpoint and writing the model: building the network,
  loading the weights of the checkpoint and exporting to ONNX. It maps the checkpoint to
  the bytes of \<open>model.onnx\<close>, or fails.
\<close>

definition build_model_repo ::
  "(file_content \<Rightarrow> py_error + string) \<Rightarrow> os_state \<Rightarrow> py_error + os_state"
where
  "build_model_repo to_onnx fs =
    (let fs = makedirs ''/models/model-repository/skin_cancer_detection/1'' fs
     in and_then (read_file ''/logs/checkpoints/model_checkpoint.ckpt'' fs) (\<lambda>checkpoint.
        and_then (to_onnx checkpoint) (\<lambda>onnx_program.
        and_then
          (write_file ''/models/model-repository/skin_cancer_detection/1/model.onnx''
             (Bytes onnx_program) fs)
          (\<lambda>fs.
             write_file ''/models/model-repository/skin_cancer_detection/config.pbtxt''
               (Bytes content) fs))))"

subsection \<open>Reading the configuration\<close>

text \<open>
  The fields of the configuration text, read token by token: tokens are separated by
  blanks and line breaks; the first \<open>input\<close> block runs from the token \<open>input\<close> to the
  next \<open>}\<close>; a field's value is the token after its key; the dimensions are the tokens
  between \<open>[\<close> and \<open>]\<close>, each without its comma.
\<close>

fun tokens_from :: "string \<Rightarrow> string \<Rightarrow> string list" where
  "tokens_from w [] = (if w = [] then [] else [rev w])"
| "tokens_from w (c # cs) =
     (if c = CHR '' '' \<or> c = CHR 0x0A
      then (if w = [] then tokens_from [] cs else rev w # tokens_from [] cs)
      else tokens_from (c # w) cs)"

definition tokens :: "string \<Rightarrow> string list" where
  "tokens s = tokens_from [] s"

fun after_token :: "string \<Rightarrow> string list \<Rightarrow> string list" where
  "after_token k [] = []"
| "after_token k (t # ts) = (if t = k then ts else after_token k ts)"

definition unquote :: "string \<Rightarrow> string" where
  \<open>unquote t = filter (\<lambda>c. c \<noteq> CHR 0x22) t\<close>

definition nat_of_digits :: "string \<Rightarrow> nat" where
  "nat_of_digits t = foldl (\<lambda>n c. 10 * n + (of_char c - 48)) 0 (filter (\<lambda>c. c \<noteq> CHR '','') t)"

record tensor =
  tensor_name :: string
  data_type :: string
  dims :: "nat list"

definition config_name :: "string \<Rightarrow> string" where
  "config_name text = unquote (hd (after_token ''name:'' (tokens text)))"

definition config_input :: "string \<Rightarrow> tensor" where
  "config_input text =
    (let block = takeWhile (\<lambda>t. t \<noteq> ''}'') (after_token ''input'' (tokens text))
     in \<lparr>tensor_name = unquote (hd (after_token ''name:'' block)),
         data_type = hd (after_token ''data_type:'' block),
         dims = map nat_of_digits
                  (takeWhile (\<lambda>t. t \<noteq> '']'') (tl (after_token ''dims:'' block)))\<rparr>)"

section \<open>Notebook 03: the client\<close>

record 'd infer_input =
  input_name :: string
  shape :: "nat list"
  input_datatype :: string
  input_data :: 'd

record 'd request_body =
  inputs :: "'d infer_input list"

text \<open>
  \<open>prepare_request_body\<close>. Its parameter \<open>transformations\<close> stands for the
  \<open>torchvision\<close> pipeline followed by \<open>[None, :]\<close> and \<open>tolist()\<close>: it maps the image
  to the nested list that is sent.
\<close>

definition prepare_request_body :: "('img \<Rightarrow> 'd) \<Rightarrow> 'img \<Rightarrow> 'd request_body" where
  "prepare_request_body transformations img =
    (let image = transformations img;
         body =
           \<lparr>inputs =
              [\<lparr>input_name = ''input.1'',
                shape = [1, 3, 224, 224],
                input_datatype = ''FP32'',
                input_data = image\<rparr>]\<rparr>
     in body)"

text \<open>
  The response of \<open>requests.post\<close>: \<open>response.status_code\<close>, \<open>response.text\<close>, and
  what \<open>response.json()\<close> returns, \<open>None\<close> when the body is not JSON and the call
  raises.
\<close>

record response =
  status_code :: int
  response_text :: string
  response_json :: "json option"

text \<open>The last cell of the notebook. The result is the list of the lines it prints.\<close>

definition handle_response :: "response \<Rightarrow> py_error + string list" where
  "handle_response response =
    (if status_code response = 200
     then (case response_json response of
             None \<Rightarrow> Inl JSONDecodeError
           | Some body \<Rightarrow>
               and_then (getitem_key body ''outputs'') (\<lambda>outputs.
               and_then (getitem_0 outputs) (\<lambda>output.
               and_then (getitem_key output ''data'') (\<lambda>data.
               and_then (getitem_0 data) (\<lambda>prob.
               and_then (format_3f prob) (\<lambda>shown.
                 Inr [''The probability that the lesion is malignant is '' @ shown]))))))
     else Inr [''Something went wrong. Status Code: '' @ str_int (status_code response),
               response_text response])"

section \<open>Properties of \<open>launch_training\<close>\<close>

lemmas launch_training_unfold =
  launch_training_def create_job_def get_metadata_def get_volume_def get_volume_mount_def Let_def

text \<open>
  Claim C1. For every parameter set, the job that \<open>launch_training\<close> submits has exactly
  the two roles \<open>Master\<close> and \<open>Worker\<close>, both bound to one and the same replica spec
  with replica count 1. The replica has one container with exactly three volume mounts:
  the data volume at the data mount path, the logs volume at the logs mount path, and the
  volume \<open>dshm\<close> at \<open>/dev/shm\<close>; \<open>dshm\<close> is an \<open>emptyDir\<close> of medium \<open>Memory\<close> and
  size limit \<open>2Gi\<close>.
\<close>

theorem launch_training_two_symmetric_roles:
  "\<exists>job rs c.
     launch_training run_name namespace data_vol logs_vol image' image_cmd image_args
       data_mount_path logs_mount_path cl = cl @ [CreateJob job namespace]
     \<and> pytorch_replica_specs (job_spec job) = [(''Master'', rs), (''Worker'', rs)]
     \<and> replicas rs = 1
     \<and> containers (template_spec (template rs)) = [c]
     \<and> volume_mounts c =
         [\<lparr>vm_name = data_vol, mount_path = data_mount_path\<rparr>,
          \<lparr>vm_name = logs_vol, mount_path = logs_mount_path\<rparr>,
          \<lparr>vm_name = ''dshm'', mount_path = ''/dev/shm''\<rparr>]
     \<and> volumes (template_spec (template rs)) =
         [\<lparr>vol_name = data_vol, persistent_volume_claim = Some \<lparr>claim_name = data_vol\<rparr>,
           empty_dir = None\<rparr>,
          \<lparr>vol_name = logs_vol, persistent_volume_claim = Some \<lparr>claim_name = logs_vol\<rparr>,
           empty_dir = None\<rparr>,
          \<lparr>vol_name = ''dshm'', persistent_volume_claim = None,
           empty_dir = Some \<lparr>medium = ''Memory'', size_limit = ''2Gi''\<rparr>\<rparr>]"
  unfolding launch_training_unfold by simp

text \<open>
  Claim C2, as amended. \<open>launch_training\<close> checks none of its parameters and has no
  accelerator-count parameter. For every parameter set, an empty run name, namespace or
  image and a mount path equal to \<open>/dev/shm\<close> included, it makes exactly one call
  \<open>training_client.create_job(pytorch_job, namespace=namespace)\<close>, with the namespace
  it was given as the argument; the job carries the run name, the image and the two
  mount paths as given. Where the client posts a job whose namespace argument is empty
  is the client's part and is not stated.
\<close>

theorem launch_training_checks_nothing:
  "\<exists>job rs c.
     launch_training run_name namespace data_vol logs_vol image' image_cmd image_args
       data_mount_path logs_mount_path cl = cl @ [CreateJob job namespace]
     \<and> meta_name (job_metadata job) = Some run_name
     \<and> map snd (pytorch_replica_specs (job_spec job)) = [rs, rs]
     \<and> containers (template_spec (template rs)) = [c]
     \<and> container_image c = image'
     \<and> map mount_path (volume_mounts c) = [data_mount_path, logs_mount_path, ''/dev/shm'']"
  unfolding launch_training_unfold by simp

text \<open>
  Claim C2 as stated fails: with an empty run name, an empty namespace, an empty image
  and both mount paths equal to \<open>/dev/shm\<close>, on a cluster that has received nothing, the
  component does not fail. It calls \<open>create_job\<close> with the job below and the empty
  namespace.
\<close>

theorem launch_training_malformed_is_submitted:
  "launch_training '''' '''' ''isic-data'' ''isic-logs'' '''' [] [] ''/dev/shm'' ''/dev/shm'' [] =
   [CreateJob
      \<lparr>job_api_version = ''kubeflow.org/v1'',
       job_kind = ''PyTorchJob'',
       job_metadata = \<lparr>meta_name = Some '''', meta_annotations = None\<rparr>,
       job_spec =
         \<lparr>pytorch_replica_specs =
            (let rs =
               \<lparr>replicas = 1,
                restart_policy = ''OnFailure'',
                template =
                  \<lparr>template_metadata =
                     \<lparr>meta_name = None,
                      meta_annotations = Some [(''sidecar.istio.io/inject'', ''false'')]\<rparr>,
                   template_spec =
                     \<lparr>volumes =
                        [\<lparr>vol_name = ''isic-data'',
                          persistent_volume_claim = Some \<lparr>claim_name = ''isic-data''\<rparr>,
                          empty_dir = None\<rparr>,
                         \<lparr>vol_name = ''isic-logs'',
                          persistent_volume_claim = Some \<lparr>claim_name = ''isic-logs''\<rparr>,
                          empty_dir = None\<rparr>,
                         \<lparr>vol_name = ''dshm'', persistent_volume_claim = None,
                          empty_dir = Some \<lparr>medium = ''Memory'', size_limit = ''2Gi''\<rparr>\<rparr>],
                      containers =
                        [\<lparr>container_name = ''pytorch'',
                          container_image = '''',
                          command = [],
                          args = [],
                          resources = \<lparr>limits = [(''nvidia.com/gpu'', ''1'')]\<rparr>,
                          volume_mounts =
                            [\<lparr>vm_name = ''isic-data'', mount_path = ''/dev/shm''\<rparr>,
                             \<lparr>vm_name = ''isic-logs'', mount_path = ''/dev/shm''\<rparr>,
                             \<lparr>vm_name = ''dshm'', mount_path = ''/dev/shm''\<rparr>]\<rparr>]\<rparr>\<rparr>\<rparr>
             in [(''Master'', rs), (''Worker'', rs)]),
          run_policy = KubeflowOrgV1RunPolicy\<rparr>\<rparr>
      '''']"
  unfolding launch_training_unfold by simp

text \<open>
  Claim C3, as amended. \<open>launch_training\<close> builds the job and submits it itself. The job
  is a function of the parameters alone: whatever the cluster has received before, the
  component leaves those requests as they are and adds one \<open>create_job\<close> request for
  that job, in the given namespace.
\<close>

theorem launch_training_submits_itself:
  "\<exists>job. \<forall>cl.
     launch_training run_name namespace data_vol logs_vol image' image_cmd image_args
       data_mount_path logs_mount_path cl = cl @ [CreateJob job namespace]"
  unfolding launch_training_unfold by blast

text \<open>
  Claim C3 as stated fails: called with the arguments of the repository's own run on a
  cluster that has received nothing, the component does not leave the cluster as it was.
\<close>

theorem launch_training_changes_cluster:
  "launch_training ''pytorch-dist-isic-efficientnet'' ''kubeflow-user-example-com''
     ''isic-data'' ''isic-logs'' ''dpoulopoulos/pytorch-dist-isic:fb2be35'' [] []
     ''/data'' ''/logs'' [] \<noteq> []"
  unfolding launch_training_unfold by simp

text \<open>
  Claim C9. For every parameter set, each role of the submitted job has one container
  whose resource limits are exactly \<open>nvidia.com/gpu = "1"\<close>. No parameter of the component
  enters the limits.
\<close>

theorem launch_training_one_gpu:
  "\<exists>job.
     launch_training run_name namespace data_vol logs_vol image' image_cmd image_args
       data_mount_path logs_mount_path cl = cl @ [CreateJob job namespace]
     \<and> map (\<lambda>(role, rs). (role, map (\<lambda>c. limits (resources c))
              (containers (template_spec (template rs)))))
           (pytorch_replica_specs (job_spec job)) =
         [(''Master'', [[(''nvidia.com/gpu'', ''1'')]]),
          (''Worker'', [[(''nvidia.com/gpu'', ''1'')]])]"
  unfolding launch_training_unfold by simp

section \<open>Properties of \<open>isic_pipeline\<close> and \<open>deploy_model\<close>\<close>

lemmas pipeline_unfold =
  isic_pipeline_def add_task_def update_task_def after_def set_caching_options_def
  mount_pvc_def use_secret_as_env_def Let_def

lemma step_graph_isic_pipeline:
  "step_graph (isic_pipeline namespace competition_name dist_run_name isvc_name data_vol logs_vol
     dist_run_image data_path dist_image_cmd dist_image_args data_mount_path logs_mount_path) =
   [(download_data_step, []), (launch_training_step, [download_data_step]),
    (monitor_training_step, [launch_training_step]),
    (build_model_repo_step, [monitor_training_step]),
    (deploy_model_step, [build_model_repo_step])]"
  unfolding pipeline_unfold step_graph_def steps_def task_graph_def task_dependencies_def
  by simp

lemma five_elements:
  assumes "distinct xs" and "set xs = {p, q, r, s, t}" and "distinct [p, q, r, s, t]"
  obtains a b c d e where "xs = [a, b, c, d, e]"
proof -
  from assms have "length xs = 5"
    using distinct_card [of xs] by simp
  then show thesis
    by (auto simp: length_Suc_conv numeral_eq_Suc intro: that)
qed

lemma chain_order_unique:
  assumes "is_topological_order
     [(download_data_step, []), (launch_training_step, [download_data_step]),
      (monitor_training_step, [launch_training_step]),
      (build_model_repo_step, [monitor_training_step]),
      (deploy_model_step, [build_model_repo_step])] xs"
  shows "xs = [download_data_step, launch_training_step, monitor_training_step,
               build_model_repo_step, deploy_model_step]"
proof -
  let ?g = "[(download_data_step, []), (launch_training_step, [download_data_step]),
      (monitor_training_step, [launch_training_step]),
      (build_model_repo_step, [monitor_training_step]),
      (deploy_model_step, [build_model_repo_step])]"
  let ?S = "{download_data_step, launch_training_step, monitor_training_step,
               build_model_repo_step, deploy_model_step}"
  from assms have d: "distinct xs" and s: "set xs = ?S" and r: "runnable ?g [] xs"
    by (simp_all add: is_topological_order_def)
  from d s obtain a b c d' e where xs: "xs = [a, b, c, d', e]"
    by (rule five_elements) simp
  from s have m: "a \<in> ?S" "b \<in> ?S" "c \<in> ?S" "d' \<in> ?S" "e \<in> ?S"
    unfolding xs by auto
  from r have ra: "list_all (\<lambda>x. x \<in> set []) (dependencies_of ?g a)"
    and rb: "list_all (\<lambda>x. x \<in> set [a]) (dependencies_of ?g b)"
    and rc: "list_all (\<lambda>x. x \<in> set [a, b]) (dependencies_of ?g c)"
    and rd: "list_all (\<lambda>x. x \<in> set [a, b, c]) (dependencies_of ?g d')"
    and re: "list_all (\<lambda>x. x \<in> set [a, b, c, d']) (dependencies_of ?g e)"
    unfolding xs by simp_all
  from d have ne: "b \<noteq> a" "c \<noteq> a" "c \<noteq> b" "d' \<noteq> a" "d' \<noteq> b" "d' \<noteq> c"
    "e \<noteq> a" "e \<noteq> b" "e \<noteq> c" "e \<noteq> d'"
    unfolding xs by auto
  have a: "a = download_data_step"
    using ra m(1) by (cases a) (simp_all add: dependencies_of_def)
  have b: "b = launch_training_step"
    using rb m(2) ne(1) unfolding a by (cases b) (simp_all add: dependencies_of_def)
  have c: "c = monitor_training_step"
    using rc m(3) ne(2,3) unfolding a b by (cases c) (simp_all add: dependencies_of_def)
  have d': "d' = build_model_repo_step"
    using rd m(4) ne(4,5,6) unfolding a b c by (cases d') (simp_all add: dependencies_of_def)
  have e: "e = deploy_model_step"
    using re m(5) ne(7,8,9,10) unfolding a b c d'
    by (cases e) (simp_all add: dependencies_of_def)
  show ?thesis by (simp add: xs a b c d' e)
qed

lemma chain_order_is_topological:
  "is_topological_order
     [(download_data_step, []), (launch_training_step, [download_data_step]),
      (monitor_training_step, [launch_training_step]),
      (build_model_repo_step, [monitor_training_step]),
      (deploy_model_step, [build_model_repo_step])]
     [download_data_step, launch_training_step, monitor_training_step,
      build_model_repo_step, deploy_model_step]"
  by (simp add: is_topological_order_def dependencies_of_def)

lemma dependencies_of_Nil: "dependencies_of [] x = []"
  by (simp add: dependencies_of_def)

lemma dependencies_of_Cons:
  "dependencies_of ((i, ds) # g) x = (if x = i then ds else dependencies_of g x)"
  by (simp add: dependencies_of_def)

lemma dependencies_of_restrict:
  assumes "S x"
  shows "dependencies_of (map (\<lambda>(i, ds). (i, filter S ds)) (filter (\<lambda>(i, ds). S i) g)) x =
     filter S (dependencies_of g x)"
proof (induction g)
  case Nil
  show ?case by (simp add: dependencies_of_Nil)
next
  case (Cons a g)
  obtain i ds where a: "a = (i, ds)" by (cases a)
  show ?case
  proof (cases "S i")
    case True
    with Cons show ?thesis
      unfolding a by (simp add: dependencies_of_Cons)
  next
    case False
    with assms have "x \<noteq> i" by auto
    with False Cons show ?thesis
      unfolding a by (simp add: dependencies_of_Cons)
  qed
qed

lemma runnable_restrict:
  "runnable g seen xs \<Longrightarrow>
   runnable (map (\<lambda>(i, ds). (i, filter S ds)) (filter (\<lambda>(i, ds). S i) g))
     (filter S seen) (filter S xs)"
proof (induction xs arbitrary: seen)
  case Nil
  then show ?case by simp
next
  case (Cons x xs)
  from Cons.prems have deps: "list_all (\<lambda>d. d \<in> set seen) (dependencies_of g x)"
    and rest: "runnable g (seen @ [x]) xs"
    by simp_all
  from Cons.IH [OF rest]
  have ih: "runnable (map (\<lambda>(i, ds). (i, filter S ds)) (filter (\<lambda>(i, ds). S i) g))
     (filter S (seen @ [x])) (filter S xs)" .
  show ?case
  proof (cases "S x")
    case True
    with deps ih show ?thesis
      by (simp add: dependencies_of_restrict list_all_iff)
  next
    case False
    with ih show ?thesis by simp
  qed
qed

lemma topological_order_restrict:
  assumes "is_topological_order g xs"
  shows "is_topological_order
     (map (\<lambda>(i, ds). (i, filter S ds)) (filter (\<lambda>(i, ds). S i) g)) (filter S xs)"
proof -
  from assms have d: "distinct xs" and s: "set xs = set (map fst g)" and r: "runnable g [] xs"
    by (simp_all add: is_topological_order_def)
  have "set (filter S xs) =
      set (map fst (map (\<lambda>(i, ds). (i, filter S ds)) (filter (\<lambda>(i, ds). S i) g)))"
    using s by (auto simp: image_iff) force+
  moreover from runnable_restrict [OF r, of S]
  have "runnable (map (\<lambda>(i, ds). (i, filter S ds)) (filter (\<lambda>(i, ds). S i) g)) []
     (filter S xs)"
    by simp
  ultimately show ?thesis
    using d by (simp add: is_topological_order_def)
qed

lemma steps_order_in_task_graph:
  assumes "is_topological_order (task_graph p) xs"
  shows "is_topological_order (step_graph p) (filter (\<lambda>t. t \<in> set (steps p)) xs)"
  unfolding step_graph_def by (rule topological_order_restrict [OF assms])

text \<open>
  Claim C4. Whatever the pipeline parameters, the five steps of \<open>isic_pipeline\<close> with the
  dependencies between them have exactly one topological order: download, launch,
  monitor, package (\<open>build_model_repo\<close>), deploy. The three volume tasks can run at
  several places, but every topological order of all eight tasks runs the five steps in
  that same order. Caching is switched on for the first four steps and switched off for
  the deploy step.
\<close>

theorem isic_pipeline_order_and_caching:
  "(\<forall>xs. is_topological_order
           (step_graph (isic_pipeline namespace competition_name dist_run_name isvc_name
              data_vol logs_vol dist_run_image data_path dist_image_cmd dist_image_args
              data_mount_path logs_mount_path)) xs
         \<longleftrightarrow> xs = [download_data_step, launch_training_step, monitor_training_step,
                   build_model_repo_step, deploy_model_step])
   \<and> (\<forall>xs. is_topological_order
           (task_graph (isic_pipeline namespace competition_name dist_run_name isvc_name
              data_vol logs_vol dist_run_image data_path dist_image_cmd dist_image_args
              data_mount_path logs_mount_path)) xs
         \<longrightarrow> filter (\<lambda>t. t \<in> set (steps (isic_pipeline namespace competition_name
                    dist_run_name isvc_name data_vol logs_vol dist_run_image data_path
                    dist_image_cmd dist_image_args data_mount_path logs_mount_path))) xs =
               [download_data_step, launch_training_step, monitor_training_step,
                build_model_repo_step, deploy_model_step])
   \<and> map (\<lambda>(i, x). (i, enable_caching x))
       (filter (\<lambda>(i, x). is_step_call (task_call x))
          (isic_pipeline namespace competition_name dist_run_name isvc_name
             data_vol logs_vol dist_run_image data_path dist_image_cmd dist_image_args
             data_mount_path logs_mount_path)) =
     [(download_data_step, Some True), (launch_training_step, Some True),
      (monitor_training_step, Some True), (build_model_repo_step, Some True),
      (deploy_model_step, Some False)]"
proof -
  let ?p = "isic_pipeline namespace competition_name dist_run_name isvc_name
              data_vol logs_vol dist_run_image data_path dist_image_cmd dist_image_args
              data_mount_path logs_mount_path"
  let ?chain = "[download_data_step, launch_training_step, monitor_training_step,
                 build_model_repo_step, deploy_model_step]"
  have unique: "xs = ?chain" if "is_topological_order (step_graph ?p) xs" for xs
    using that unfolding step_graph_isic_pipeline by (rule chain_order_unique)
  have exists: "is_topological_order (step_graph ?p) ?chain"
    unfolding step_graph_isic_pipeline by (rule chain_order_is_topological)
  have whole: "filter (\<lambda>t. t \<in> set (steps ?p)) xs = ?chain"
    if "is_topological_order (task_graph ?p) xs" for xs
    using steps_order_in_task_graph [OF that] by (rule unique)
  have caching: "map (\<lambda>(i, x). (i, enable_caching x))
       (filter (\<lambda>(i, x). is_step_call (task_call x)) ?p) =
     [(download_data_step, Some True), (launch_training_step, Some True),
      (monitor_training_step, Some True), (build_model_repo_step, Some True),
      (deploy_model_step, Some False)]"
    unfolding pipeline_unfold by simp
  from unique exists whole caching show ?thesis by blast
qed

text \<open>
  A run of C4 on the pipeline as the notebook starts it: an order of all eight tasks in
  which each volume is created just before the step that mounts it.
\<close>

theorem isic_pipeline_order_and_caching_witness:
  "is_topological_order
     (task_graph (isic_pipeline ''kubeflow-user-example-com'' ''isic-2024-challenge''
        ''pytorch-dist-isic-efficientnet'' ''skin-cancer-detection'' ''isic-data'' ''isic-logs''
        ''dpoulopoulos/pytorch-dist-isic:fb2be35'' ''/data'' [] [] ''/data'' ''/logs''))
     [isic_data_pvc, download_data_step, launch_training_step, monitor_training_step,
      isic_logs_pvc, model_repo_pvc, build_model_repo_step, deploy_model_step]
   \<and> filter (\<lambda>t. t \<in> set (steps (isic_pipeline ''kubeflow-user-example-com''
        ''isic-2024-challenge'' ''pytorch-dist-isic-efficientnet'' ''skin-cancer-detection''
        ''isic-data'' ''isic-logs'' ''dpoulopoulos/pytorch-dist-isic:fb2be35'' ''/data'' [] []
        ''/data'' ''/logs'')))
       [isic_data_pvc, download_data_step, launch_training_step, monitor_training_step,
        isic_logs_pvc, model_repo_pvc, build_model_repo_step, deploy_model_step] =
     [download_data_step, launch_training_step, monitor_training_step,
      build_model_repo_step, deploy_model_step]"
proof -
  have order: "is_topological_order
     (task_graph (isic_pipeline ''kubeflow-user-example-com'' ''isic-2024-challenge''
        ''pytorch-dist-isic-efficientnet'' ''skin-cancer-detection'' ''isic-data'' ''isic-logs''
        ''dpoulopoulos/pytorch-dist-isic:fb2be35'' ''/data'' [] [] ''/data'' ''/logs''))
     [isic_data_pvc, download_data_step, launch_training_step, monitor_training_step,
      isic_logs_pvc, model_repo_pvc, build_model_repo_step, deploy_model_step]"
    unfolding pipeline_unfold task_graph_def task_dependencies_def is_topological_order_def
    by (auto simp: dependencies_of_def)
  with isic_pipeline_order_and_caching [of "''kubeflow-user-example-com''"
        "''isic-2024-challenge''" "''pytorch-dist-isic-efficientnet''"
        "''skin-cancer-detection''" "''isic-data''" "''isic-logs''"
        "''dpoulopoulos/pytorch-dist-isic:fb2be35''" "''/data''" "[]" "[]" "''/data''"
        "''/logs''"]
  show ?thesis by blast
qed

text \<open>
  Claim C10. Two invocations of \<open>deploy_model\<close> with any service names and namespaces
  create inference services that agree in everything but the name in the metadata (the
  namespace is an argument of the request, not a field of the service). The model format
  \<open>triton\<close>, the protocol version \<open>v2\<close>, the runtime version \<open>24.06-py3\<close> and the
  storage URI \<open>pvc://model-repo/model-repository\<close> are constants. In the pipeline the
  deploy step receives the service name and the namespace and no other parameter.
\<close>

theorem deploy_model_constant_descriptor:
  "\<exists>isvc1 isvc2.
     deploy_model isvc_name1 namespace1 cl1 = cl1 @ [KServeCreate isvc1 namespace1]
     \<and> deploy_model isvc_name2 namespace2 cl2 = cl2 @ [KServeCreate isvc2 namespace2]
     \<and> isvc_metadata isvc1 = \<lparr>meta_name = Some isvc_name1, meta_annotations = None\<rparr>
     \<and> isvc2 = isvc1\<lparr>isvc_metadata := \<lparr>meta_name = Some isvc_name2, meta_annotations = None\<rparr>\<rparr>
     \<and> model (predictor (isvc_spec isvc1)) =
         \<lparr>model_name = '''',
          model_format = \<lparr>format_name = ''triton''\<rparr>,
          protocol_version = ''v2'',
          runtime_version = ''24.06-py3'',
          storage_uri = ''pvc://model-repo/model-repository''\<rparr>
     \<and> map_option task_call
         (map_of (isic_pipeline namespace competition_name dist_run_name isvc_name data_vol
            logs_vol dist_run_image data_path dist_image_cmd dist_image_args data_mount_path
            logs_mount_path) deploy_model_step) =
       Some (Deploy_model isvc_name namespace)"
  unfolding deploy_model_def kserve_create_def pipeline_unfold by simp

section \<open>Properties of the credential's way from notebook 01 to \<open>init_kaggle\<close>\<close>












section \<open>Properties of \<open>build_model_repo\<close> and of the client\<close>

lemma config_input_content:
  "config_input content =
     \<lparr>tensor_name = ''input.1'', data_type = ''TYPE_FP32'', dims = [1, 3, 224, 224]\<rparr>"
  by (simp add: config_input_def content_def tokens_def unquote_def nat_of_digits_def)

lemma config_name_content: "config_name content = ''skin_cancer_detection''"
  by (simp add: config_name_def content_def tokens_def unquote_def)

text \<open>
  Claim C7. When the checkpoint is there and its conversion succeeds, \<open>build_model_repo\<close>
  succeeds and writes exactly two files: \<open><root>/<model-name>/1/model.onnx\<close> with the
  converted model and \<open><root>/<model-name>/config.pbtxt\<close> with the configuration text,
  for the root \<open>/models/model-repository\<close> and the model name \<open>skin_cancer_detection\<close>,
  which is also the name the configuration gives. The input tensor of the configuration
  is \<open>input.1\<close> with dimensions 1, 3, 224, 224 and data type \<open>TYPE_FP32\<close>, the
  configuration's spelling of the data type that the inference protocol spells \<open>FP32\<close>.
  The request body of the client has one input, with that name, that shape and the
  datatype \<open>FP32\<close>.
\<close>

theorem build_model_repo_layout_matches_client:
  assumes "map_of (files fs) ''/logs/checkpoints/model_checkpoint.ckpt'' = Some checkpoint"
    and "to_onnx checkpoint = Inr onnx_program"
  shows "\<exists>fs' i.
      build_model_repo to_onnx fs = Inr fs'
    \<and> map_of (files fs') =
        (map_of (files fs))
          (''/models/model-repository'' @ ''/'' @ ''skin_cancer_detection'' @ ''/1/model.onnx''
             \<mapsto> Bytes onnx_program,
           ''/models/model-repository'' @ ''/'' @ ''skin_cancer_detection'' @ ''/config.pbtxt''
             \<mapsto> Bytes content)
    \<and> config_name content = ''skin_cancer_detection''
    \<and> config_input content =
        \<lparr>tensor_name = ''input.1'', data_type = ''TYPE_FP32'', dims = [1, 3, 224, 224]\<rparr>
    \<and> inputs (prepare_request_body transformations img) = [i]
    \<and> input_name i = tensor_name (config_input content)
    \<and> shape i = dims (config_input content)
    \<and> input_datatype i = ''FP32''
    \<and> ''TYPE_'' @ input_datatype i = data_type (config_input content)"
  using assms
  by (simp add: build_model_repo_def Let_def and_then_def read_file_def write_file_def
      makedirs_def is_dir_def dirname_def rstrip_slash_def
      config_input_content config_name_content prepare_request_body_def)

text \<open>
  A run of C7: a container that holds the checkpoint and nothing else, and a conversion
  that yields the bytes \<open>onnx\<close>.
\<close>

theorem build_model_repo_layout_matches_client_witness:
  "map_of (files \<lparr>dirs = [],
       files = [(''/logs/checkpoints/model_checkpoint.ckpt'', Bytes ''weights'')],
       subprocess_log = []\<rparr>) ''/logs/checkpoints/model_checkpoint.ckpt'' = Some (Bytes ''weights'')
   \<and> (\<exists>fs'.
        build_model_repo (\<lambda>c. Inr ''onnx'')
          \<lparr>dirs = [],
           files = [(''/logs/checkpoints/model_checkpoint.ckpt'', Bytes ''weights'')],
           subprocess_log = []\<rparr> = Inr fs'
      \<and> map_of (files fs') ''/models/model-repository/skin_cancer_detection/1/model.onnx'' =
          Some (Bytes ''onnx'')
      \<and> map_of (files fs') ''/models/model-repository/skin_cancer_detection/config.pbtxt'' =
          Some (Bytes content)
      \<and> map_of (files fs') ''/logs/checkpoints/model_checkpoint.ckpt'' = Some (Bytes ''weights''))"
proof -
  let ?fs = "\<lparr>dirs = [],
       files = [(''/logs/checkpoints/model_checkpoint.ckpt'', Bytes ''weights'')],
       subprocess_log = []\<rparr>"
  have h1: "map_of (files ?fs) ''/logs/checkpoints/model_checkpoint.ckpt'' = Some (Bytes ''weights'')"
    by simp
  have h2: "(\<lambda>c :: file_content. Inr ''onnx'' :: py_error + string) (Bytes ''weights'') = Inr ''onnx''"
    by simp
  from build_model_repo_layout_matches_client [OF h1 h2, of "\<lambda>x :: nat. x" 0]
  obtain fs' where
    "build_model_repo (\<lambda>c. Inr ''onnx'') ?fs = Inr fs'"
    "map_of (files fs') =
       (map_of (files ?fs))
         (''/models/model-repository/skin_cancer_detection/1/model.onnx'' \<mapsto> Bytes ''onnx'',
          ''/models/model-repository/skin_cancer_detection/config.pbtxt'' \<mapsto> Bytes content)"
    by auto
  then have "\<exists>fs'.
        build_model_repo (\<lambda>c. Inr ''onnx'') ?fs = Inr fs'
      \<and> map_of (files fs') ''/models/model-repository/skin_cancer_detection/1/model.onnx'' =
          Some (Bytes ''onnx'')
      \<and> map_of (files fs') ''/models/model-repository/skin_cancer_detection/config.pbtxt'' =
          Some (Bytes content)
      \<and> map_of (files fs') ''/logs/checkpoints/model_checkpoint.ckpt'' = Some (Bytes ''weights'')"
    by simp
  with h1 show ?thesis by blast
qed

lemma thousandths_exact: "0 \<le> e \<Longrightarrow> int (thousandths m e) = 1000 * int m * 2 ^ nat e"
  by (simp add: thousandths_def)

lemma thousandths_near:
  assumes "e < 0"
  shows "2 * \<bar>int (thousandths m e) * 2 ^ nat (- e) - 1000 * int m\<bar> \<le> 2 ^ nat (- e)"
proof -
  define d :: nat where "d = 2 ^ nat (- e)"
  define q where "q = (m * 1000) div d"
  define r where "r = (m * 1000) mod d"
  have dpos: "0 < d" by (simp add: d_def)
  have split: "m * 1000 = q * d + r" by (simp add: q_def r_def)
  have rlt: "r < d" using dpos by (simp add: r_def)
  have t: "thousandths m e = (if 2 * r < d then q else if d < 2 * r then q + 1
                               else if even q then q else q + 1)"
    using assms by (simp add: thousandths_def Let_def d_def q_def r_def)
  have i: "1000 * int m = int q * int d + int r"
    using split by (metis mult.commute of_nat_add of_nat_mult of_nat_numeral)
  have "2 * \<bar>int (thousandths m e) * int d - 1000 * int m\<bar> \<le> int d"
    using rlt unfolding t i by (auto simp: algebra_simps)
  then show ?thesis by (simp add: d_def)
qed

lemma round_to_53_bits_near:
  assumes "round_to_53_bits a = (m, k)"
  shows "2 * \<bar>int m * 2 ^ k - int a\<bar> \<le> 2 ^ k"
proof -
  define j where "j = bit_length a - 53"
  define d :: nat where "d = 2 ^ j"
  define q where "q = a div d"
  define r where "r = a mod d"
  have dpos: "0 < d" by (simp add: d_def)
  have rlt: "r < d" using dpos by (simp add: r_def)
  have i: "int a = int q * int d + int r"
    by (metis q_def r_def div_mult_mod_eq of_nat_add of_nat_mult)
  from assms have m': "m = fst (round_to_53_bits a)" and k': "k = snd (round_to_53_bits a)"
    by simp_all
  have k: "k = j"
    unfolding k' round_to_53_bits_def Let_def snd_conv j_def by (rule refl)
  have m: "m = (if 2 * r < d then q else if d < 2 * r then q + 1
                 else if even q then q else q + 1)"
    unfolding m' round_to_53_bits_def Let_def fst_conv q_def r_def d_def j_def by (rule refl)
  have "2 * \<bar>int m * int d - int a\<bar> \<le> int d"
    using rlt unfolding m i by (auto simp: algebra_simps)
  then show ?thesis by (simp add: d_def k)
qed

lemma bit_length_le: "a < 2 ^ j \<Longrightarrow> bit_length a \<le> j"
proof (induction j arbitrary: a)
  case 0
  then show ?case by (simp add: bit_length.simps)
next
  case (Suc j)
  from Suc.prems have "a div 2 < 2 ^ j" by simp
  from Suc.IH [OF this] show ?case
    by (subst bit_length.simps) simp
qed

lemma bit_length_ge: "2 ^ j \<le> a \<Longrightarrow> Suc j \<le> bit_length a"
proof (induction j arbitrary: a)
  case 0
  then show ?case by (subst bit_length.simps) simp
next
  case (Suc j)
  from Suc.prems have "2 ^ j \<le> a div 2" by simp
  moreover have "0 < (2 :: nat) ^ Suc j" by simp
  with Suc.prems have "a \<noteq> 0" by linarith
  ultimately show ?case
    using Suc.IH [of "a div 2"] by (subst bit_length.simps) simp
qed

lemma bit_length_eq: "2 ^ j \<le> a \<Longrightarrow> a < 2 ^ Suc j \<Longrightarrow> bit_length a = Suc j"
  using bit_length_le [of a "Suc j"] bit_length_ge [of j a] by simp

lemma round_to_53_bits_small: "a < 2 ^ 53 \<Longrightarrow> round_to_53_bits a = (a, 0)"
  using bit_length_le [of a 53] by (simp add: round_to_53_bits_def)

lemma round_to_53_bits_2_53: "a = 2 ^ 53 \<Longrightarrow> round_to_53_bits a = (2 ^ 52, 1)"
  using bit_length_eq [of 53 a] by (simp add: round_to_53_bits_def)

lemma fixed3_whole: "fixed3 s (a * 1000) = (if s then ''-'' else '''') @ digits a @ ''.000''"
proof -
  have "a * 1000 div 100 = a * 10" "a * 1000 div 10 = a * 100" "a * 1000 mod 10 = 0"
    by simp_all
  then show ?thesis
    by (simp add: fixed3_def digit_def)
qed

lemma thousandths_of_nat: "thousandths m (int k) = m * 1000 * 2 ^ k"
  by (simp add: thousandths_def)

lemma format_3f_large_int:
  assumes "round_to_53_bits (nat \<bar>n\<bar>) = (m, k)"
  shows "format_3f (JInt n) =
     (if 2 ^ 1024 \<le> m * 2 ^ k then Inl OverflowError
      else Inr (fixed3 (n < 0) (m * 1000 * 2 ^ k)))"
proof (cases "2 ^ 1024 \<le> m * 2 ^ k")
  case True
  then show ?thesis
    unfolding format_3f.simps float_of_int_def assms prod.case
    by (simp only: if_True and_then_def sum.case)
next
  case False
  then show ?thesis
    unfolding format_3f.simps float_of_int_def assms prod.case
    by (simp only: if_False and_then_def sum.case format_float_3f.simps thousandths_of_nat)
qed

lemma format_3f_small_int:
  assumes "\<bar>n\<bar> \<le> 2 ^ 53"
  shows "format_3f (JInt n) = Inr (str_int n @ ''.000'')"
proof -
  define a where "a = nat \<bar>n\<bar>"
  have sign: "(if n < 0 then ''-'' else '''') @ digits a = str_int n"
    by (simp add: str_int_def a_def)
  have le: "a \<le> 2 ^ 53"
    using assms unfolding a_def by (simp add: nat_le_iff)
  have "(2 :: nat) ^ 53 < 2 ^ 1024"
    by (rule power_strict_increasing) simp_all
  with le have small: "\<not> 2 ^ 1024 \<le> a"
    by linarith
  obtain m k where mk: "round_to_53_bits a = (m, k)" and val: "m * 2 ^ k = a"
  proof (cases "a = 2 ^ 53")
    case True
    have "(2 :: nat) ^ 52 * 2 ^ 1 = 2 ^ 53" by simp
    with round_to_53_bits_2_53 [OF True] True show thesis
      by (intro that [of "2 ^ 52" 1]) simp_all
  next
    case False
    with le have "a < 2 ^ 53" by linarith
    from round_to_53_bits_small [OF this] show thesis
      by (intro that [of a 0]) simp_all
  qed
  have "m * 1000 * 2 ^ k = a * 1000"
    using val by (simp add: mult.assoc mult.left_commute mult.commute)
  with format_3f_large_int [of n m k] mk small val
  have "format_3f (JInt n) = Inr (fixed3 (n < 0) (a * 1000))"
    unfolding a_def [symmetric] by (simp only: if_False)
  then show ?thesis
    unfolding fixed3_whole using sign by simp
qed

lemma handle_response_200:
  assumes "status_code r = 200"
    and "response_json r = Some (JObject items)"
    and "map_of items ''outputs'' = Some (JArray (JObject items' # outs))"
    and "map_of items' ''data'' = Some (JArray (v # ps))"
  shows "handle_response r =
     and_then (format_3f v)
       (\<lambda>shown. Inr [''The probability that the lesion is malignant is '' @ shown])"
  using assms by (simp add: handle_response_def and_then_def)

lemma report_200:
  assumes eq: "handle_response r =
     and_then (format_3f v)
       (\<lambda>shown. Inr [''The probability that the lesion is malignant is '' @ shown])"
  shows "(\<forall>s m e. v = JFloat (Finite s m e) \<longrightarrow>
        handle_response r =
          Inr [''The probability that the lesion is malignant is '' @
               fixed3 s (thousandths m e)]
        \<and> (0 \<le> e \<longrightarrow> int (thousandths m e) = 1000 * int m * 2 ^ nat e)
        \<and> (e < 0 \<longrightarrow>
             2 * \<bar>int (thousandths m e) * 2 ^ nat (- e) - 1000 * int m\<bar> \<le> 2 ^ nat (- e)))
    \<and> (\<forall>s. v = JFloat (Inf s) \<longrightarrow>
        handle_response r =
          Inr [''The probability that the lesion is malignant is '' @
               (if s then ''-inf'' else ''inf'')])
    \<and> (v = JFloat NaN \<longrightarrow>
        handle_response r = Inr [''The probability that the lesion is malignant is '' @ ''nan''])
    \<and> (\<forall>n. v = JInt n \<and> \<bar>n\<bar> \<le> 2 ^ 53 \<longrightarrow>
        handle_response r =
          Inr [''The probability that the lesion is malignant is '' @ str_int n @ ''.000''])
    \<and> (\<forall>n m k. v = JInt n \<and> round_to_53_bits (nat \<bar>n\<bar>) = (m, k) \<longrightarrow>
        2 * \<bar>int m * 2 ^ k - \<bar>n\<bar>\<bar> \<le> 2 ^ k
        \<and> (m * 2 ^ k < 2 ^ 1024 \<longrightarrow>
             handle_response r =
               Inr [''The probability that the lesion is malignant is '' @
                    fixed3 (n < 0) (m * 1000 * 2 ^ k)])
        \<and> (2 ^ 1024 \<le> m * 2 ^ k \<longrightarrow> handle_response r = Inl OverflowError))"
proof (intro conjI allI impI)
  fix s m e
  assume "v = JFloat (Finite s m e)"
  then show "handle_response r =
      Inr [''The probability that the lesion is malignant is '' @ fixed3 s (thousandths m e)]"
    by (simp add: eq and_then_def)
next
  fix s :: bool and m :: nat and e :: int
  assume "v = JFloat (Finite s m e)" and "0 \<le> e"
  then show "int (thousandths m e) = 1000 * int m * 2 ^ nat e"
    by (simp only: thousandths_exact)
next
  fix s :: bool and m :: nat and e :: int
  assume "v = JFloat (Finite s m e)" and "e < 0"
  then show "2 * \<bar>int (thousandths m e) * 2 ^ nat (- e) - 1000 * int m\<bar> \<le> 2 ^ nat (- e)"
    by (simp only: thousandths_near)
next
  fix s
  assume "v = JFloat (Inf s)"
  then show "handle_response r =
      Inr [''The probability that the lesion is malignant is '' @
           (if s then ''-inf'' else ''inf'')]"
    by (simp add: eq and_then_def)
next
  assume "v = JFloat NaN"
  then show "handle_response r =
      Inr [''The probability that the lesion is malignant is '' @ ''nan'']"
    by (simp add: eq and_then_def)
next
  fix n
  assume "v = JInt n \<and> \<bar>n\<bar> \<le> 2 ^ 53"
  then have "format_3f v = Inr (str_int n @ ''.000'')"
    using format_3f_small_int [of n] by blast
  then show "handle_response r =
      Inr [''The probability that the lesion is malignant is '' @ str_int n @ ''.000'']"
    unfolding eq by (simp only: and_then_def sum.case)
next
  fix n m k
  assume "v = JInt n \<and> round_to_53_bits (nat \<bar>n\<bar>) = (m, k)"
  then have "round_to_53_bits (nat \<bar>n\<bar>) = (m, k)" ..
  from round_to_53_bits_near [OF this]
  show "2 * \<bar>int m * 2 ^ k - \<bar>n\<bar>\<bar> \<le> 2 ^ k"
    by simp
next
  fix n m k
  assume a: "v = JInt n \<and> round_to_53_bits (nat \<bar>n\<bar>) = (m, k)"
    and b: "m * 2 ^ k < 2 ^ 1024"
  from b have c: "\<not> 2 ^ 1024 \<le> m * 2 ^ k"
    by (simp only: not_le)
  from a have "format_3f v = Inr (fixed3 (n < 0) (m * 1000 * 2 ^ k))"
    using format_3f_large_int [of n m k] c by (simp only: if_False)
  then show "handle_response r =
      Inr [''The probability that the lesion is malignant is '' @
           fixed3 (n < 0) (m * 1000 * 2 ^ k)]"
    unfolding eq by (simp only: and_then_def sum.case)
next
  fix n m k
  assume a: "v = JInt n \<and> round_to_53_bits (nat \<bar>n\<bar>) = (m, k)"
    and b: "(2 :: nat) ^ 1024 \<le> m * 2 ^ k"
  from a have "format_3f v = Inl OverflowError"
    using format_3f_large_int [of n m k] b by (simp only: if_True)
  then show "handle_response r = Inl OverflowError"
    unfolding eq by (simp only: and_then_def sum.case)
qed

text \<open>
  Claim C5, as amended. For every response whose status code is not 200 the client
  prints two lines, the status code in decimal and the text of the body as received, and
  reads no probability: the decoded body plays no part. For a response with status code
  200 whose body is a JSON object with a number at \<open>outputs[0].data[0]\<close> the client
  prints one line, ending in that number in the format \<open>.3f\<close>. A finite float
  \<open>m * 2 ^ e\<close> is printed rounded to three decimals: the printed numeral is the float
  itself when \<open>e\<close> is not negative, and is within half a thousandth of it otherwise. The
  floats \<open>inf\<close> and \<open>nan\<close> are printed by name. An \<open>int\<close> of magnitude at most
  \<open>2 ^ 53\<close> is printed exactly, with \<open>.000\<close> appended. Any \<open>int\<close> is converted to a
  float first, which rounds its magnitude to \<open>m * 2 ^ k\<close>, within half of \<open>2 ^ k\<close> of
  it: that value is printed when it is below \<open>2 ^ 1024\<close>, and otherwise the client raises
  \<open>OverflowError\<close> and prints nothing.
\<close>

theorem handle_response_report:
  "(status_code r \<noteq> 200 \<longrightarrow>
      handle_response r =
        Inr [''Something went wrong. Status Code: '' @ str_int (status_code r), response_text r])
   \<and> (status_code r = 200
        \<and> response_json r = Some (JObject items)
        \<and> map_of items ''outputs'' = Some (JArray (JObject items' # outs))
        \<and> map_of items' ''data'' = Some (JArray (v # ps)) \<longrightarrow>
      (\<forall>s m e. v = JFloat (Finite s m e) \<longrightarrow>
        handle_response r =
          Inr [''The probability that the lesion is malignant is '' @
               fixed3 s (thousandths m e)]
        \<and> (0 \<le> e \<longrightarrow> int (thousandths m e) = 1000 * int m * 2 ^ nat e)
        \<and> (e < 0 \<longrightarrow>
             2 * \<bar>int (thousandths m e) * 2 ^ nat (- e) - 1000 * int m\<bar> \<le> 2 ^ nat (- e)))
    \<and> (\<forall>s. v = JFloat (Inf s) \<longrightarrow>
        handle_response r =
          Inr [''The probability that the lesion is malignant is '' @
               (if s then ''-inf'' else ''inf'')])
    \<and> (v = JFloat NaN \<longrightarrow>
        handle_response r = Inr [''The probability that the lesion is malignant is '' @ ''nan''])
    \<and> (\<forall>n. v = JInt n \<and> \<bar>n\<bar> \<le> 2 ^ 53 \<longrightarrow>
        handle_response r =
          Inr [''The probability that the lesion is malignant is '' @ str_int n @ ''.000''])
    \<and> (\<forall>n m k. v = JInt n \<and> round_to_53_bits (nat \<bar>n\<bar>) = (m, k) \<longrightarrow>
        2 * \<bar>int m * 2 ^ k - \<bar>n\<bar>\<bar> \<le> 2 ^ k
        \<and> (m * 2 ^ k < 2 ^ 1024 \<longrightarrow>
             handle_response r =
               Inr [''The probability that the lesion is malignant is '' @
                    fixed3 (n < 0) (m * 1000 * 2 ^ k)])
        \<and> (2 ^ 1024 \<le> m * 2 ^ k \<longrightarrow> handle_response r = Inl OverflowError)))"
proof (rule conjI)
  show "status_code r \<noteq> 200 \<longrightarrow>
      handle_response r =
        Inr [''Something went wrong. Status Code: '' @ str_int (status_code r), response_text r]"
    by (simp add: handle_response_def)
next
  show "status_code r = 200
        \<and> response_json r = Some (JObject items)
        \<and> map_of items ''outputs'' = Some (JArray (JObject items' # outs))
        \<and> map_of items' ''data'' = Some (JArray (v # ps)) \<longrightarrow>
      (\<forall>s m e. v = JFloat (Finite s m e) \<longrightarrow>
        handle_response r =
          Inr [''The probability that the lesion is malignant is '' @
               fixed3 s (thousandths m e)]
        \<and> (0 \<le> e \<longrightarrow> int (thousandths m e) = 1000 * int m * 2 ^ nat e)
        \<and> (e < 0 \<longrightarrow>
             2 * \<bar>int (thousandths m e) * 2 ^ nat (- e) - 1000 * int m\<bar> \<le> 2 ^ nat (- e)))
    \<and> (\<forall>s. v = JFloat (Inf s) \<longrightarrow>
        handle_response r =
          Inr [''The probability that the lesion is malignant is '' @
               (if s then ''-inf'' else ''inf'')])
    \<and> (v = JFloat NaN \<longrightarrow>
        handle_response r = Inr [''The probability that the lesion is malignant is '' @ ''nan''])
    \<and> (\<forall>n. v = JInt n \<and> \<bar>n\<bar> \<le> 2 ^ 53 \<longrightarrow>
        handle_response r =
          Inr [''The probability that the lesion is malignant is '' @ str_int n @ ''.000''])
    \<and> (\<forall>n m k. v = JInt n \<and> round_to_53_bits (nat \<bar>n\<bar>) = (m, k) \<longrightarrow>
        2 * \<bar>int m * 2 ^ k - \<bar>n\<bar>\<bar> \<le> 2 ^ k
        \<and> (m * 2 ^ k < 2 ^ 1024 \<longrightarrow>
             handle_response r =
               Inr [''The probability that the lesion is malignant is '' @
                    fixed3 (n < 0) (m * 1000 * 2 ^ k)])
        \<and> (2 ^ 1024 \<le> m * 2 ^ k \<longrightarrow> handle_response r = Inl OverflowError))"
  proof (rule impI)
    assume "status_code r = 200
        \<and> response_json r = Some (JObject items)
        \<and> map_of items ''outputs'' = Some (JArray (JObject items' # outs))
        \<and> map_of items' ''data'' = Some (JArray (v # ps))"
    then have "handle_response r =
       and_then (format_3f v)
         (\<lambda>shown. Inr [''The probability that the lesion is malignant is '' @ shown])"
      using handle_response_200 [of r items items' outs v ps] by blast
    then show "(\<forall>s m e. v = JFloat (Finite s m e) \<longrightarrow>
        handle_response r =
          Inr [''The probability that the lesion is malignant is '' @
               fixed3 s (thousandths m e)]
        \<and> (0 \<le> e \<longrightarrow> int (thousandths m e) = 1000 * int m * 2 ^ nat e)
        \<and> (e < 0 \<longrightarrow>
             2 * \<bar>int (thousandths m e) * 2 ^ nat (- e) - 1000 * int m\<bar> \<le> 2 ^ nat (- e)))
    \<and> (\<forall>s. v = JFloat (Inf s) \<longrightarrow>
        handle_response r =
          Inr [''The probability that the lesion is malignant is '' @
               (if s then ''-inf'' else ''inf'')])
    \<and> (v = JFloat NaN \<longrightarrow>
        handle_response r = Inr [''The probability that the lesion is malignant is '' @ ''nan''])
    \<and> (\<forall>n. v = JInt n \<and> \<bar>n\<bar> \<le> 2 ^ 53 \<longrightarrow>
        handle_response r =
          Inr [''The probability that the lesion is malignant is '' @ str_int n @ ''.000''])
    \<and> (\<forall>n m k. v = JInt n \<and> round_to_53_bits (nat \<bar>n\<bar>) = (m, k) \<longrightarrow>
        2 * \<bar>int m * 2 ^ k - \<bar>n\<bar>\<bar> \<le> 2 ^ k
        \<and> (m * 2 ^ k < 2 ^ 1024 \<longrightarrow>
             handle_response r =
               Inr [''The probability that the lesion is malignant is '' @
                    fixed3 (n < 0) (m * 1000 * 2 ^ k)])
        \<and> (2 ^ 1024 \<le> m * 2 ^ k \<longrightarrow> handle_response r = Inl OverflowError))"
      by (rule report_200)
  qed
qed

text \<open>
  Runs of C5. The float nearest to 0.734 is \<open>413205265811243 * 2 ^ - 49\<close>; a
  response with status code 200 that carries it is reported as 0.734. A response with
  status code 503 is reported with its code and its text. The \<open>int\<close> 1 is reported as
  1.000; \<open>2 ^ 60 + 1\<close> is rounded to \<open>2 ^ 52 * 2 ^ 8\<close> and reported as
  1152921504606846976.000; \<open>10 ^ 400\<close> is rounded to \<open>7686445155841023 * 2 ^ 1276\<close>,
  which is no float, and raises \<open>OverflowError\<close>. The floats \<open>-inf\<close> and \<open>nan\<close>
  are reported by name.
\<close>

theorem handle_response_report_witness:
  "handle_response
     \<lparr>status_code = 200, response_text = [],
      response_json = Some (JObject [(''outputs'',
        JArray [JObject [(''data'', JArray [JFloat (Finite False 413205265811243 (- 49))])]])])\<rparr> =
     Inr [''The probability that the lesion is malignant is 0.734'']
   \<and> handle_response
     \<lparr>status_code = 503, response_text = ''upstream connect error'', response_json = None\<rparr> =
     Inr [''Something went wrong. Status Code: 503'', ''upstream connect error'']
   \<and> handle_response
     \<lparr>status_code = 200, response_text = [],
      response_json = Some (JObject [(''outputs'',
        JArray [JObject [(''data'', JArray [JInt 1])]])])\<rparr> =
     Inr [''The probability that the lesion is malignant is 1.000'']
   \<and> handle_response
     \<lparr>status_code = 200, response_text = [],
      response_json = Some (JObject [(''outputs'',
        JArray [JObject [(''data'', JArray [JInt (2 ^ 60 + 1)])]])])\<rparr> =
     Inr [''The probability that the lesion is malignant is 1152921504606846976.000'']
   \<and> handle_response
     \<lparr>status_code = 200, response_text = [],
      response_json = Some (JObject [(''outputs'',
        JArray [JObject [(''data'', JArray [JInt (10 ^ 400)])]])])\<rparr> =
     Inl OverflowError
   \<and> handle_response
     \<lparr>status_code = 200, response_text = [],
      response_json = Some (JObject [(''outputs'',
        JArray [JObject [(''data'', JArray [JFloat (Inf True)])]])])\<rparr> =
     Inr [''The probability that the lesion is malignant is -inf'']
   \<and> handle_response
     \<lparr>status_code = 200, response_text = [],
      response_json = Some (JObject [(''outputs'',
        JArray [JObject [(''data'', JArray [JFloat NaN])]])])\<rparr> =
     Inr [''The probability that the lesion is malignant is nan'']"
proof -
  have shown_f: "fixed3 False (thousandths 413205265811243 (- 49)) = ''0.734''"
    by (simp add: fixed3_def thousandths_def digits.simps digit_def Let_def)
  have shown_503: "str_int 503 = ''503''"
    by (simp add: str_int_def digits.simps digit_def)
  have shown_i: "str_int 1 = ''1''"
    by (simp add: str_int_def digits.simps digit_def)
  have small_i: "\<bar>1 :: int\<bar> \<le> 2 ^ 53"
    by simp
  have round_b: "round_to_53_bits (nat \<bar>2 ^ 60 + 1\<bar>) = (2 ^ 52, 8)"
    using bit_length_eq [of 60 "2 ^ 60 + 1"] by (simp add: round_to_53_bits_def)
  have below_b: "(2 :: nat) ^ 52 * 2 ^ 8 < 2 ^ 1024"
    by simp
  have shown_b: "fixed3 (2 ^ 60 + 1 < (0 :: int)) (2 ^ 52 * 1000 * 2 ^ 8) =
      ''1152921504606846976.000''"
    by (simp add: fixed3_def digits.simps digit_def)
  have round_o: "round_to_53_bits (nat \<bar>10 ^ 400\<bar>) = (7686445155841023, 1276)"
    using bit_length_eq [of 1328 "10 ^ 400"] by (simp add: round_to_53_bits_def)
  have above_o: "(2 :: nat) ^ 1024 \<le> 7686445155841023 * 2 ^ 1276"
    by simp
  have not_200: "status_code
      \<lparr>status_code = 503, response_text = ''upstream connect error'', response_json = None\<rparr> \<noteq> 200"
    by simp
  have shape_f: "status_code
      \<lparr>status_code = 200, response_text = [],
       response_json = Some (JObject [(''outputs'',
         JArray [JObject [(''data'', JArray [JFloat (Finite False 413205265811243 (- 49))])]])])\<rparr> = 200
    \<and> response_json
      \<lparr>status_code = 200, response_text = [],
       response_json = Some (JObject [(''outputs'',
         JArray [JObject [(''data'', JArray [JFloat (Finite False 413205265811243 (- 49))])]])])\<rparr> =
      Some (JObject [(''outputs'', JArray [JObject [(''data'', JArray [JFloat (Finite False 413205265811243 (- 49))])]])])
    \<and> map_of [(''outputs'', JArray [JObject [(''data'', JArray [JFloat (Finite False 413205265811243 (- 49))])]])] ''outputs'' =
      Some (JArray (JObject [(''data'', JArray [JFloat (Finite False 413205265811243 (- 49))])] # []))
    \<and> map_of [(''data'', JArray [JFloat (Finite False 413205265811243 (- 49))])] ''data'' = Some (JArray (JFloat (Finite False 413205265811243 (- 49)) # []))"
    by simp
  note all_f = handle_response_report [of
        "\<lparr>status_code = 200, response_text = [],
          response_json = Some (JObject [(''outputs'',
            JArray [JObject [(''data'', JArray [JFloat (Finite False 413205265811243 (- 49))])]])])\<rparr>"
        "[(''outputs'', JArray [JObject [(''data'', JArray [JFloat (Finite False 413205265811243 (- 49))])]])]"
        "[(''data'', JArray [JFloat (Finite False 413205265811243 (- 49))])]" "[]"
        "JFloat (Finite False 413205265811243 (- 49))" "[]",
        THEN conjunct2, rule_format, OF shape_f]
  have run_f: "handle_response
       \<lparr>status_code = 200, response_text = [],
        response_json = Some (JObject [(''outputs'',
          JArray [JObject [(''data'', JArray [JFloat (Finite False 413205265811243 (- 49))])]])])\<rparr> =
       Inr [''The probability that the lesion is malignant is 0.734'']"
    using all_f [THEN conjunct1, rule_format, OF refl, THEN conjunct1]
    by (simp add: shown_f)
  have run_503: "handle_response
       \<lparr>status_code = 503, response_text = ''upstream connect error'', response_json = None\<rparr> =
       Inr [''Something went wrong. Status Code: 503'', ''upstream connect error'']"
    using handle_response_report [of
        "\<lparr>status_code = 503, response_text = ''upstream connect error'', response_json = None\<rparr>",
        THEN conjunct1, rule_format, OF not_200]
    by (simp add: shown_503)
  have shape_i: "status_code
      \<lparr>status_code = 200, response_text = [],
       response_json = Some (JObject [(''outputs'',
         JArray [JObject [(''data'', JArray [JInt 1])]])])\<rparr> = 200
    \<and> response_json
      \<lparr>status_code = 200, response_text = [],
       response_json = Some (JObject [(''outputs'',
         JArray [JObject [(''data'', JArray [JInt 1])]])])\<rparr> =
      Some (JObject [(''outputs'', JArray [JObject [(''data'', JArray [JInt 1])]])])
    \<and> map_of [(''outputs'', JArray [JObject [(''data'', JArray [JInt 1])]])] ''outputs'' =
      Some (JArray (JObject [(''data'', JArray [JInt 1])] # []))
    \<and> map_of [(''data'', JArray [JInt 1])] ''data'' = Some (JArray (JInt 1 # []))"
    by simp
  note all_i = handle_response_report [of
        "\<lparr>status_code = 200, response_text = [],
          response_json = Some (JObject [(''outputs'',
            JArray [JObject [(''data'', JArray [JInt 1])]])])\<rparr>"
        "[(''outputs'', JArray [JObject [(''data'', JArray [JInt 1])]])]"
        "[(''data'', JArray [JInt 1])]" "[]"
        "JInt 1" "[]",
        THEN conjunct2, rule_format, OF shape_i]
  have run_i: "handle_response
       \<lparr>status_code = 200, response_text = [],
        response_json = Some (JObject [(''outputs'',
          JArray [JObject [(''data'', JArray [JInt 1])]])])\<rparr> =
       Inr [''The probability that the lesion is malignant is 1.000'']"
    using all_i [THEN conjunct2, THEN conjunct2, THEN conjunct2, THEN conjunct1, rule_format,
      OF conjI [OF refl small_i]]
    by (simp add: shown_i)
  have shape_b: "status_code
      \<lparr>status_code = 200, response_text = [],
       response_json = Some (JObject [(''outputs'',
         JArray [JObject [(''data'', JArray [JInt (2 ^ 60 + 1)])]])])\<rparr> = 200
    \<and> response_json
      \<lparr>status_code = 200, response_text = [],
       response_json = Some (JObject [(''outputs'',
         JArray [JObject [(''data'', JArray [JInt (2 ^ 60 + 1)])]])])\<rparr> =
      Some (JObject [(''outputs'', JArray [JObject [(''data'', JArray [JInt (2 ^ 60 + 1)])]])])
    \<and> map_of [(''outputs'', JArray [JObject [(''data'', JArray [JInt (2 ^ 60 + 1)])]])] ''outputs'' =
      Some (JArray (JObject [(''data'', JArray [JInt (2 ^ 60 + 1)])] # []))
    \<and> map_of [(''data'', JArray [JInt (2 ^ 60 + 1)])] ''data'' = Some (JArray (JInt (2 ^ 60 + 1) # []))"
    by simp
  note all_b = handle_response_report [of
        "\<lparr>status_code = 200, response_text = [],
          response_json = Some (JObject [(''outputs'',
            JArray [JObject [(''data'', JArray [JInt (2 ^ 60 + 1)])]])])\<rparr>"
        "[(''outputs'', JArray [JObject [(''data'', JArray [JInt (2 ^ 60 + 1)])]])]"
        "[(''data'', JArray [JInt (2 ^ 60 + 1)])]" "[]"
        "JInt (2 ^ 60 + 1)" "[]",
        THEN conjunct2, rule_format, OF shape_b]
  have run_b: "handle_response
       \<lparr>status_code = 200, response_text = [],
        response_json = Some (JObject [(''outputs'',
          JArray [JObject [(''data'', JArray [JInt (2 ^ 60 + 1)])]])])\<rparr> =
       Inr [''The probability that the lesion is malignant is 1152921504606846976.000'']"
    using all_b [THEN conjunct2, THEN conjunct2, THEN conjunct2, THEN conjunct2, rule_format,
      OF conjI [OF refl round_b], THEN conjunct2, THEN conjunct1, rule_format, OF below_b]
    unfolding shown_b by simp
  have shape_o: "status_code
      \<lparr>status_code = 200, response_text = [],
       response_json = Some (JObject [(''outputs'',
         JArray [JObject [(''data'', JArray [JInt (10 ^ 400)])]])])\<rparr> = 200
    \<and> response_json
      \<lparr>status_code = 200, response_text = [],
       response_json = Some (JObject [(''outputs'',
         JArray [JObject [(''data'', JArray [JInt (10 ^ 400)])]])])\<rparr> =
      Some (JObject [(''outputs'', JArray [JObject [(''data'', JArray [JInt (10 ^ 400)])]])])
    \<and> map_of [(''outputs'', JArray [JObject [(''data'', JArray [JInt (10 ^ 400)])]])] ''outputs'' =
      Some (JArray (JObject [(''data'', JArray [JInt (10 ^ 400)])] # []))
    \<and> map_of [(''data'', JArray [JInt (10 ^ 400)])] ''data'' = Some (JArray (JInt (10 ^ 400) # []))"
    by simp
  note all_o = handle_response_report [of
        "\<lparr>status_code = 200, response_text = [],
          response_json = Some (JObject [(''outputs'',
            JArray [JObject [(''data'', JArray [JInt (10 ^ 400)])]])])\<rparr>"
        "[(''outputs'', JArray [JObject [(''data'', JArray [JInt (10 ^ 400)])]])]"
        "[(''data'', JArray [JInt (10 ^ 400)])]" "[]"
        "JInt (10 ^ 400)" "[]",
        THEN conjunct2, rule_format, OF shape_o]
  have run_o: "handle_response
       \<lparr>status_code = 200, response_text = [],
        response_json = Some (JObject [(''outputs'',
          JArray [JObject [(''data'', JArray [JInt (10 ^ 400)])]])])\<rparr> =
       Inl OverflowError"
    using all_o [THEN conjunct2, THEN conjunct2, THEN conjunct2, THEN conjunct2, rule_format,
      OF conjI [OF refl round_o], THEN conjunct2, THEN conjunct2, rule_format, OF above_o]
    .
  have shape_n: "status_code
      \<lparr>status_code = 200, response_text = [],
       response_json = Some (JObject [(''outputs'',
         JArray [JObject [(''data'', JArray [JFloat (Inf True)])]])])\<rparr> = 200
    \<and> response_json
      \<lparr>status_code = 200, response_text = [],
       response_json = Some (JObject [(''outputs'',
         JArray [JObject [(''data'', JArray [JFloat (Inf True)])]])])\<rparr> =
      Some (JObject [(''outputs'', JArray [JObject [(''data'', JArray [JFloat (Inf True)])]])])
    \<and> map_of [(''outputs'', JArray [JObject [(''data'', JArray [JFloat (Inf True)])]])] ''outputs'' =
      Some (JArray (JObject [(''data'', JArray [JFloat (Inf True)])] # []))
    \<and> map_of [(''data'', JArray [JFloat (Inf True)])] ''data'' = Some (JArray (JFloat (Inf True) # []))"
    by simp
  note all_n = handle_response_report [of
        "\<lparr>status_code = 200, response_text = [],
          response_json = Some (JObject [(''outputs'',
            JArray [JObject [(''data'', JArray [JFloat (Inf True)])]])])\<rparr>"
        "[(''outputs'', JArray [JObject [(''data'', JArray [JFloat (Inf True)])]])]"
        "[(''data'', JArray [JFloat (Inf True)])]" "[]"
        "JFloat (Inf True)" "[]",
        THEN conjunct2, rule_format, OF shape_n]
  have run_n: "handle_response
       \<lparr>status_code = 200, response_text = [],
        response_json = Some (JObject [(''outputs'',
          JArray [JObject [(''data'', JArray [JFloat (Inf True)])]])])\<rparr> =
       Inr [''The probability that the lesion is malignant is -inf'']"
    using all_n [THEN conjunct2, THEN conjunct1, rule_format, OF refl]
    by simp
  have shape_a: "status_code
      \<lparr>status_code = 200, response_text = [],
       response_json = Some (JObject [(''outputs'',
         JArray [JObject [(''data'', JArray [JFloat NaN])]])])\<rparr> = 200
    \<and> response_json
      \<lparr>status_code = 200, response_text = [],
       response_json = Some (JObject [(''outputs'',
         JArray [JObject [(''data'', JArray [JFloat NaN])]])])\<rparr> =
      Some (JObject [(''outputs'', JArray [JObject [(''data'', JArray [JFloat NaN])]])])
    \<and> map_of [(''outputs'', JArray [JObject [(''data'', JArray [JFloat NaN])]])] ''outputs'' =
      Some (JArray (JObject [(''data'', JArray [JFloat NaN])] # []))
    \<and> map_of [(''data'', JArray [JFloat NaN])] ''data'' = Some (JArray (JFloat NaN # []))"
    by simp
  note all_a = handle_response_report [of
        "\<lparr>status_code = 200, response_text = [],
          response_json = Some (JObject [(''outputs'',
            JArray [JObject [(''data'', JArray [JFloat NaN])]])])\<rparr>"
        "[(''outputs'', JArray [JObject [(''data'', JArray [JFloat NaN])]])]"
        "[(''data'', JArray [JFloat NaN])]" "[]"
        "JFloat NaN" "[]",
        THEN conjunct2, rule_format, OF shape_a]
  have run_a: "handle_response
       \<lparr>status_code = 200, response_text = [],
        response_json = Some (JObject [(''outputs'',
          JArray [JObject [(''data'', JArray [JFloat NaN])]])])\<rparr> =
       Inr [''The probability that the lesion is malignant is nan'']"
    using all_a [THEN conjunct2, THEN conjunct2, THEN conjunct1, rule_format, OF refl]
    by simp
  from run_f run_503 run_i run_b run_o run_n run_a show ?thesis
    by (intro conjI)
qed

text \<open>
  Claim C5 as stated fails: a response with status code 200 and
  \<open>outputs[0].data[0] = 0.734375\<close>, the float \<open>47 * 2 ^ - 6\<close>, is reported as 0.734.
  The numeral 0.734 is 734 thousandths, and \<open>734 / 1000\<close> is not \<open>47 / 64\<close>. The float
  \<open>0.7344970703125 = 6017 * 2 ^ - 13\<close> is reported as 0.734 as well.
\<close>

theorem handle_response_rounds:
  "handle_response
     \<lparr>status_code = 200, response_text = [],
      response_json = Some (JObject [(''outputs'',
        JArray [JObject [(''data'', JArray [JFloat (Finite False 47 (- 6))])]])])\<rparr> =
     Inr [''The probability that the lesion is malignant is 0.734'']
   \<and> thousandths 47 (- 6) = 734
   \<and> (734 :: int) * 2 ^ 6 \<noteq> 1000 * 47
   \<and> handle_response
     \<lparr>status_code = 200, response_text = [],
      response_json = Some (JObject [(''outputs'',
        JArray [JObject [(''data'', JArray [JFloat (Finite False 6017 (- 13))])]])])\<rparr> =
     Inr [''The probability that the lesion is malignant is 0.734'']"
  by (simp add: handle_response_def and_then_def fixed3_def thousandths_def digits.simps
      digit_def Let_def)

end
